theory Spec2Isabelle
  imports Main "HOL-Library.Multiset"
begin

section \<open>Status registry of the tracking service\<close>

text \<open>
  The package statuses of \<^verbatim>\<open>PACKAGE_STATUS\<close> are JavaScript strings; the model keeps
  them as strings, since the service compares them with \<^verbatim>\<open>===\<close>, looks them up as
  object keys and stores them in a \<^verbatim>\<open>VARCHAR\<close> column.
\<close>

definition REQUESTED :: string where "REQUESTED = ''requested''"
definition ACCEPTED :: string where "ACCEPTED = ''accepted''"
definition PICKED_UP :: string where "PICKED_UP = ''picked_up''"
definition IN_TRANSIT :: string where "IN_TRANSIT = ''in_transit''"
definition ARRIVED :: string where "ARRIVED = ''arrived''"
definition DELIVERED :: string where "DELIVERED = ''delivered''"
definition DISPUTED :: string where "DISPUTED = ''disputed''"

text \<open>\<^verbatim>\<open>Object.values(PACKAGE_STATUS)\<close>, in declaration order.\<close>

definition PACKAGE_STATUS_values :: "string list" where
  "PACKAGE_STATUS_values =
     [REQUESTED, ACCEPTED, PICKED_UP, IN_TRANSIT, ARRIVED, DELIVERED, DISPUTED]"

text \<open>
  \<^verbatim>\<open>ALLOWED_TRANSITIONS\<close> is an object literal whose own keys are the seven statuses;
  it is kept as an association list in the order of the source.
\<close>

definition ALLOWED_TRANSITIONS :: "(string \<times> string list) list" where
  "ALLOWED_TRANSITIONS =
     [(REQUESTED, [ACCEPTED, DISPUTED]),
      (ACCEPTED, [PICKED_UP, DISPUTED]),
      (PICKED_UP, [IN_TRANSIT, DISPUTED]),
      (IN_TRANSIT, [ARRIVED, DISPUTED]),
      (ARRIVED, [DELIVERED, DISPUTED]),
      (DELIVERED, [DISPUTED]),
      (DISPUTED, [])]"

text \<open>
  The object literal inherits from \<^verbatim>\<open>Object.prototype\<close>. Indexing it with one of the
  inherited property names yields a function (or, for \<^verbatim>\<open>__proto__\<close>, the prototype
  object), which is neither \<^verbatim>\<open>null\<close> nor \<^verbatim>\<open>undefined\<close> and has no
  \<^verbatim>\<open>includes\<close> method, so the optional chain \<^verbatim>\<open>?.includes(newStatus)\<close> calls
  \<^verbatim>\<open>undefined\<close> and a \<^verbatim>\<open>TypeError\<close> is thrown.
\<close>

definition Object_prototype_keys :: "string list" where
  "Object_prototype_keys =
     [''constructor'', ''__defineGetter__'', ''__defineSetter__'', ''hasOwnProperty'',
      ''__lookupGetter__'', ''__lookupSetter__'', ''isPrototypeOf'',
      ''propertyIsEnumerable'', ''toString'', ''valueOf'', ''__proto__'',
      ''toLocaleString'']"

text \<open>The statements sent to PostgreSQL, named so that a failing one can be told apart.\<close>

datatype stmt =
    Connect | Begin | SelectPackage | UpdatePackage | InsertTracking | Commit | Rollback
  | DisputeConnect | DisputeBegin | InsertDispute | DisputeCommit | DisputeRollback
  | SelectAccess | SelectTracking

text \<open>
  Everything the service throws, one constructor per \<^verbatim>\<open>throw\<close> of the source:
  \<open>NotFound\<close> is the error with the message \<^verbatim>\<open>Colis non trouve\<close>,
  \<open>InvalidTransition cur new\<close> the one with
  \<^verbatim>\<open>Transition non autorisee de cur vers new\<close>,
  \<open>PermissionDenied\<close> the one with \<^verbatim>\<open>Permission insuffisante pour cette action\<close>,
  \<open>AccessDenied\<close> the one with \<^verbatim>\<open>Acces non autorise a ce colis\<close> (the
  messages carry French accents in the source). \<open>DbError q\<close> is the error of the
  database driver for statement \<open>q\<close>, \<open>NotificationError u\<close> is whatever the
  socket layer throws while emitting to user \<open>u\<close>, and \<open>TypeError\<close> is the
  JavaScript runtime error.
\<close>

datatype error =
    NotFound
  | InvalidTransition "string option" string
  | PermissionDenied
  | AccessDenied
  | TypeError
  | DbError stmt
  | NotificationError int

text \<open>
  The status column is nullable, so the current status read from a row is a string or
  \<^verbatim>\<open>null\<close> (\<open>None\<close>). \<^verbatim>\<open>!currentStatus\<close> holds for \<^verbatim>\<open>null\<close>,
  \<^verbatim>\<open>undefined\<close> and the empty string; every other string is truthy.
\<close>

definition isTransitionAllowed :: "string option \<Rightarrow> string \<Rightarrow> error + bool" where
  "isTransitionAllowed currentStatus newStatus =
     (case currentStatus of
        None \<Rightarrow> Inr (newStatus = REQUESTED)
      | Some cur \<Rightarrow>
          if cur = [] then Inr (newStatus = REQUESTED)
          else (case map_of ALLOWED_TRANSITIONS cur of
                  Some nexts \<Rightarrow> Inr (newStatus \<in> set nexts)
                | None \<Rightarrow>
                    if cur \<in> set Object_prototype_keys then Inl TypeError
                    else Inr False))"

text \<open>
  The row that \<^verbatim>\<open>updatePackageStatus\<close> selects: the package columns together with
  the traveler of its trip. \<^verbatim>\<open>sender_id\<close> is never \<^verbatim>\<open>null\<close> here, since the
  query joins the sender's user row; \<^verbatim>\<open>traveler_id\<close> can be.
\<close>

record packageData =
  pd_id :: int
  pd_sender_id :: int
  pd_traveler_id :: "int option"
  pd_status :: "string option"

definition hasPermissionToUpdate :: "packageData \<Rightarrow> int \<Rightarrow> string \<Rightarrow> bool" where
  "hasPermissionToUpdate packageData userId newStatus =
     (let isOwner = (pd_sender_id packageData = userId);
          isTraveler = (pd_traveler_id packageData = Some userId)
      in if newStatus = ACCEPTED \<or> newStatus = PICKED_UP \<or> newStatus = IN_TRANSIT
            \<or> newStatus = ARRIVED then isTraveler
         else if newStatus = DELIVERED then isOwner
         else if newStatus = DISPUTED then isOwner \<or> isTraveler
         else False)"

text \<open>
  \<^verbatim>\<open>STATUS_MESSAGES\<close> has an entry (icon, title, description) for each of the seven
  statuses. The texts play no part in the control flow; what matters is whether a status
  has an entry, since \<^verbatim>\<open>statusInfo.title\<close> on a missing entry throws. The model keeps
  the keys.
\<close>

definition STATUS_MESSAGES :: "string list" where
  "STATUS_MESSAGES =
     [REQUESTED, ACCEPTED, PICKED_UP, IN_TRANSIT, ARRIVED, DELIVERED, DISPUTED]"

section \<open>The tables the service reads and writes\<close>

text \<open>
  The columns of \<^verbatim>\<open>users\<close>, \<^verbatim>\<open>trips\<close>, \<^verbatim>\<open>packages\<close>,
  \<^verbatim>\<open>package_tracking\<close> and \<^verbatim>\<open>package_disputes\<close> that the tracking service
  touches, with the nullability of the schema. Timestamps are integers (milliseconds).
  In \<^verbatim>\<open>users\<close>, \<^verbatim>\<open>trips\<close> and \<^verbatim>\<open>packages\<close> the column \<^verbatim>\<open>id\<close> is the
  primary key and the service reaches rows through it only, so these tables are maps
  from the id to the other columns. The service reads \<^verbatim>\<open>package_tracking\<close> in
  timestamp order and only appends to \<^verbatim>\<open>package_disputes\<close>: these two are the
  lists of their rows in insertion order.
\<close>

record user_row =
  u_first_name :: string
  u_last_name :: string

record trip_row =
  t_traveler_id :: "int option"

record package_row =
  p_sender_id :: "int option"
  p_trip_id :: "int option"
  p_status :: "string option"
  p_updated_at :: int

record tracking_row =
  tr_id :: int
  tr_package_id :: int
  tr_status :: string
  tr_user_id :: "int option"
  tr_notes :: "string option"
  tr_location :: "string option"
  tr_photo_path :: "string option"
  tr_created_at :: int

record dispute_row =
  d_id :: int
  d_package_id :: int
  d_reporter_id :: int
  d_reason :: string
  d_description :: string
  d_evidence_photos :: "string list"
  d_status :: string
  d_created_at :: int

text \<open>
  The committed contents of the database. The two \<^verbatim>\<open>SERIAL\<close> columns draw their
  values from sequences, which PostgreSQL advances outside of any transaction.
\<close>

record database =
  users :: "int \<rightharpoonup> user_row"
  trips :: "int \<rightharpoonup> trip_row"
  packages :: "int \<rightharpoonup> package_row"
  package_tracking :: "tracking_row list"
  package_disputes :: "dispute_row list"
  package_tracking_id_seq :: int
  package_disputes_id_seq :: int

text \<open>
  Messages handed to Socket.IO: \<^verbatim>\<open>system_notification\<close> to the room of a user, with
  the package id and the new status; \<^verbatim>\<open>dispute_created\<close> to the room of a package
  and \<^verbatim>\<open>new_dispute\<close> to the administrators' room, both with the package id, the
  dispute id, the reporter and the reason.
\<close>

datatype event =
    SystemNotification int int string
  | DisputeCreated int int int string
  | NewDispute int int int string

text \<open>What a call can change: the committed database and the messages emitted so far.\<close>

record state =
  db :: database
  emitted :: "event list"

text \<open>
  What the surroundings decide in one call: which statements the database driver rejects
  (connection loss, constraint violation, timeout), the application clock read by
  \<^verbatim>\<open>new Date()\<close>, the database clock behind \<^verbatim>\<open>CURRENT_TIMESTAMP\<close>, whether
  \<^verbatim>\<open>socketService.io\<close> has been initialised, and for which rooms \<^verbatim>\<open>emit\<close>
  throws (user rooms by user id, the package room and the administrators' room of a
  dispute). The \<^verbatim>\<open>CHECK\<close> constraint that \<^verbatim>\<open>initializeTables\<close> puts on
  \<^verbatim>\<open>packages.status\<close> is one cause of a rejected \<open>UpdatePackage\<close>.
\<close>

record env =
  fails :: "stmt \<Rightarrow> bool"
  clock :: int
  db_clock :: int
  io :: bool
  emit_throws :: "int \<Rightarrow> bool"
  package_room_throws :: bool
  admin_room_throws :: bool

text \<open>
  The writes of a transaction stay pending on its client until \<^verbatim>\<open>COMMIT\<close> applies
  them to the committed database; \<^verbatim>\<open>ROLLBACK\<close> drops them.
\<close>

datatype db_write =
    UpdateStatus int string int
  | InsertTrackingRow tracking_row
  | InsertDisputeRow dispute_row

fun apply_write :: "db_write \<Rightarrow> database \<Rightarrow> database" where
  "apply_write (UpdateStatus packageId newStatus ts) d =
     (case packages d packageId of
        None \<Rightarrow> d
      | Some p \<Rightarrow>
          d\<lparr>packages :=
              (packages d)(packageId \<mapsto> p\<lparr>p_status := Some newStatus, p_updated_at := ts\<rparr>)\<rparr>)"
| "apply_write (InsertTrackingRow r) d = d\<lparr>package_tracking := package_tracking d @ [r]\<rparr>"
| "apply_write (InsertDisputeRow r) d = d\<lparr>package_disputes := package_disputes d @ [r]\<rparr>"

text \<open>
  The \<^verbatim>\<open>catch\<close> blocks: \<^verbatim>\<open>await client.query('ROLLBACK'); throw error\<close>. The
  caller sees the caught error unless the rollback statement itself throws.
\<close>

definition rollback_then_throw :: "env \<Rightarrow> stmt \<Rightarrow> error \<Rightarrow> error" where
  "rollback_then_throw e q err = (if fails e q then DbError q else err)"

section \<open>The transition engine\<close>

text \<open>
  The first query of \<^verbatim>\<open>updatePackageStatus\<close>: the package with the given id joined
  with its trip and with the user row of its sender (the left join with the traveler's
  user row drops nothing). All three joins go through primary keys, so there is at most
  one row; \<open>None\<close> is \<^verbatim>\<open>rows.length === 0\<close>.
\<close>

definition selectPackage :: "database \<Rightarrow> int \<Rightarrow> packageData option" where
  "selectPackage d packageId =
     (case packages d packageId of
        None \<Rightarrow> None
      | Some p \<Rightarrow>
          (case p_trip_id p of
             None \<Rightarrow> None
           | Some trip \<Rightarrow>
               (case trips d trip of
                  None \<Rightarrow> None
                | Some t \<Rightarrow>
                    (case p_sender_id p of
                       None \<Rightarrow> None
                     | Some sender \<Rightarrow>
                         (case users d sender of
                            None \<Rightarrow> None
                          | Some u \<Rightarrow>
                              Some \<lparr>pd_id = packageId, pd_sender_id = sender,
                                    pd_traveler_id = t_traveler_id t,
                                    pd_status = p_status p\<rparr>)))))"

text \<open>\<^verbatim>\<open>options.notes || null\<close>: a missing or empty string becomes \<^verbatim>\<open>null\<close>.\<close>

definition or_null :: "string option \<Rightarrow> string option" where
  "or_null v = (case v of None \<Rightarrow> None | Some s \<Rightarrow> if s = [] then None else Some s)"

record options =
  opt_notes :: "string option"
  opt_location :: "string option"
  opt_photoPath :: "string option"

text \<open>The object returned by \<^verbatim>\<open>updatePackageStatus\<close> (the status message left out).\<close>

record update_result =
  package :: "package_row option"
  tracking :: tracking_row

definition sendSystemNotification :: "env \<Rightarrow> int \<Rightarrow> event \<Rightarrow> state \<Rightarrow> error option \<times> state" where
  "sendSystemNotification e userId notification st =
     (if \<not> io e then (None, st)
      else if emit_throws e userId then (Some (NotificationError userId), st)
      else (None, st\<lparr>emitted := emitted st @ [notification]\<rparr>))"

text \<open>
  \<^verbatim>\<open>sendStatusNotifications\<close>: the sender is notified unless the sender is the
  acting user, then the traveler unless \<^verbatim>\<open>traveler_id\<close> is falsy (\<^verbatim>\<open>null\<close> or
  \<open>0\<close>) or is the acting user. Nothing is caught: the first throw ends the function.
\<close>

definition sendStatusNotifications ::
  "env \<Rightarrow> packageData \<Rightarrow> string \<Rightarrow> int \<Rightarrow> state \<Rightarrow> error option \<times> state" where
  "sendStatusNotifications e packageData newStatus userId st =
     (let statusInfo = (newStatus \<in> set STATUS_MESSAGES);
          r1 = (if pd_sender_id packageData \<noteq> userId
                then if \<not> statusInfo then (Some TypeError, st)
                     else sendSystemNotification e (pd_sender_id packageData)
                            (SystemNotification (pd_sender_id packageData)
                               (pd_id packageData) newStatus) st
                else (None, st))
      in case r1 of
           (Some err, st1) \<Rightarrow> (Some err, st1)
         | (None, st1) \<Rightarrow>
             (case pd_traveler_id packageData of
                None \<Rightarrow> (None, st1)
              | Some traveler \<Rightarrow>
                  if traveler \<noteq> 0 \<and> traveler \<noteq> userId
                  then if \<not> statusInfo then (Some TypeError, st1)
                       else sendSystemNotification e traveler
                              (SystemNotification traveler (pd_id packageData) newStatus) st1
                  else (None, st1)))"

text \<open>
  \<^verbatim>\<open>updatePackageStatus\<close> up to \<^verbatim>\<open>const packageData = packageResult.rows[0]\<close>:
  take a client from the pool, \<^verbatim>\<open>BEGIN\<close>, select the package. The client comes from
  \<^verbatim>\<open>pool.connect()\<close> with the default isolation level and the query takes no row
  lock, so the row is a snapshot of the committed database.
\<close>

definition updatePackageStatus_load ::
  "env \<Rightarrow> int \<Rightarrow> state \<Rightarrow> error + packageData" where
  "updatePackageStatus_load e packageId st =
     (if fails e Connect then Inl (DbError Connect)
      else if fails e Begin then Inl (rollback_then_throw e Rollback (DbError Begin))
      else if fails e SelectPackage
      then Inl (rollback_then_throw e Rollback (DbError SelectPackage))
      else (case selectPackage (db st) packageId of
              None \<Rightarrow> Inl (rollback_then_throw e Rollback NotFound)
            | Some packageData \<Rightarrow> Inr packageData))"

text \<open>
  The rest of \<^verbatim>\<open>updatePackageStatus\<close>, from \<^verbatim>\<open>const currentStatus\<close> on: the two
  checks on the loaded row, the \<^verbatim>\<open>UPDATE\<close> (whose \<^verbatim>\<open>WHERE\<close> clause names the id
  only), the tracking record, \<^verbatim>\<open>COMMIT\<close>, then the notifications, still inside the
  \<^verbatim>\<open>try\<close> block. \<^verbatim>\<open>RETURNING id\<close> draws the next value of the sequence at once;
  a \<^verbatim>\<open>ROLLBACK\<close> after the commit changes nothing.
\<close>

definition updatePackageStatus_apply ::
  "env \<Rightarrow> packageData \<Rightarrow> int \<Rightarrow> string \<Rightarrow> int \<Rightarrow> options \<Rightarrow> state
     \<Rightarrow> (error + update_result) \<times> state" where
  "updatePackageStatus_apply e packageData packageId newStatus userId opts st =
     (let currentStatus = pd_status packageData in
      case isTransitionAllowed currentStatus newStatus of
        Inl err \<Rightarrow> (Inl (rollback_then_throw e Rollback err), st)
      | Inr allowed \<Rightarrow>
          if \<not> allowed
          then (Inl (rollback_then_throw e Rollback
                       (InvalidTransition currentStatus newStatus)), st)
          else if \<not> hasPermissionToUpdate packageData userId newStatus
          then (Inl (rollback_then_throw e Rollback PermissionDenied), st)
          else if fails e UpdatePackage
          then (Inl (rollback_then_throw e Rollback (DbError UpdatePackage)), st)
          else
            let w1 = UpdateStatus packageId newStatus (db_clock e);
                updateResult = packages (apply_write w1 (db st)) packageId
            in if fails e InsertTracking
               then (Inl (rollback_then_throw e Rollback (DbError InsertTracking)), st)
               else
                 let trackingId = package_tracking_id_seq (db st) + 1;
                     st1 = st\<lparr>db := (db st)\<lparr>package_tracking_id_seq := trackingId\<rparr>\<rparr>;
                     trackingData =
                       \<lparr>tr_id = trackingId, tr_package_id = packageId,
                        tr_status = newStatus, tr_user_id = Some userId,
                        tr_notes = or_null (opt_notes opts),
                        tr_location = or_null (opt_location opts),
                        tr_photo_path = or_null (opt_photoPath opts),
                        tr_created_at = clock e\<rparr>;
                     w2 = InsertTrackingRow trackingData
                 in if fails e Commit
                    then (Inl (rollback_then_throw e Rollback (DbError Commit)), st1)
                    else
                      let st2 = st1\<lparr>db := apply_write w2 (apply_write w1 (db st1))\<rparr>
                      in (case sendStatusNotifications e packageData newStatus userId st2 of
                            (Some err, st3) \<Rightarrow>
                              (Inl (rollback_then_throw e Rollback err), st3)
                          | (None, st3) \<Rightarrow>
                              (Inr \<lparr>package = updateResult, tracking = trackingData\<rparr>,
                               st3)))"

definition updatePackageStatus ::
  "env \<Rightarrow> int \<Rightarrow> string \<Rightarrow> int \<Rightarrow> options \<Rightarrow> state \<Rightarrow> (error + update_result) \<times> state" where
  "updatePackageStatus e packageId newStatus userId opts st =
     (case updatePackageStatus_load e packageId st of
        Inl err \<Rightarrow> (Inl err, st)
      | Inr packageData \<Rightarrow>
          updatePackageStatus_apply e packageData packageId newStatus userId opts st)"

section \<open>The dispute sub-flow\<close>

record disputeData =
  reason :: string
  description :: string
  evidencePhotos :: "string list option"

text \<open>
  \<^verbatim>\<open>socketService.notifyDisputeCreated\<close> wraps its two emits in \<^verbatim>\<open>try\<close> and logs
  what it catches, so it never throws.
\<close>

definition notifyDisputeCreated :: "env \<Rightarrow> int \<Rightarrow> int \<Rightarrow> int \<Rightarrow> string \<Rightarrow> state \<Rightarrow> state" where
  "notifyDisputeCreated e packageId disputeId reporterId rsn st =
     (if \<not> io e then st
      else if package_room_throws e then st
      else
        let st1 = st\<lparr>emitted := emitted st @ [DisputeCreated packageId disputeId reporterId rsn]\<rparr>
        in if admin_room_throws e then st1
           else st1\<lparr>emitted := emitted st1 @ [NewDispute packageId disputeId reporterId rsn]\<rparr>)"

text \<open>
  \<^verbatim>\<open>createDispute\<close> takes a client of its own and opens a transaction on it, then
  calls \<^verbatim>\<open>updatePackageStatus\<close>, which takes another client from the pool and
  commits there. The dispute row is inserted on the first client. The note of the
  tracking record is the template string with the reason (the two accented letters are
  the characters \<open>0xE9\<close>).
\<close>

definition dispute_note :: "string \<Rightarrow> string" where
  "dispute_note rsn =
     ''Litige d'' @ [CHR 0xE9] @ ''clar'' @ [CHR 0xE9] @ '': '' @ rsn"

definition createDispute ::
  "env \<Rightarrow> int \<Rightarrow> int \<Rightarrow> disputeData \<Rightarrow> state \<Rightarrow> (error + int) \<times> state" where
  "createDispute e packageId userId dd st =
     (if fails e DisputeConnect then (Inl (DbError DisputeConnect), st)
      else if fails e DisputeBegin
      then (Inl (rollback_then_throw e DisputeRollback (DbError DisputeBegin)), st)
      else
        (case updatePackageStatus e packageId DISPUTED userId
                \<lparr>opt_notes = Some (dispute_note (reason dd)), opt_location = None,
                 opt_photoPath = None\<rparr> st of
           (Inl err, st1) \<Rightarrow> (Inl (rollback_then_throw e DisputeRollback err), st1)
         | (Inr _, st1) \<Rightarrow>
             if fails e InsertDispute
             then (Inl (rollback_then_throw e DisputeRollback (DbError InsertDispute)), st1)
             else
               let disputeId = package_disputes_id_seq (db st1) + 1;
                   st2 = st1\<lparr>db := (db st1)\<lparr>package_disputes_id_seq := disputeId\<rparr>\<rparr>;
                   w = InsertDisputeRow
                         \<lparr>d_id = disputeId, d_package_id = packageId,
                          d_reporter_id = userId, d_reason = reason dd,
                          d_description = description dd,
                          d_evidence_photos =
                            (case evidencePhotos dd of None \<Rightarrow> [] | Some ps \<Rightarrow> ps),
                          d_status = ''open'', d_created_at = db_clock e\<rparr>
               in if fails e DisputeCommit
                  then (Inl (rollback_then_throw e DisputeRollback (DbError DisputeCommit)),
                        st2)
                  else
                    let st3 = st2\<lparr>db := apply_write w (db st2)\<rparr>
                    in (Inr disputeId,
                        notifyDisputeCreated e packageId disputeId userId (reason dd) st3)))"

section \<open>Reading the history\<close>







section \<open>Sample data\<close>

text \<open>
  A database with one package, number 5, sent by user 1 on trip 7 of traveler 2, accepted
  by the traveler at time 200; a surrounding in which every statement succeeds, the
  application clock reads 300 and every emit goes through.
\<close>

definition example_db :: database where
  "example_db =
     \<lparr>users = [1 \<mapsto> \<lparr>u_first_name = ''Awa'', u_last_name = ''Diop''\<rparr>,
               2 \<mapsto> \<lparr>u_first_name = ''Luc'', u_last_name = ''Morel''\<rparr>],
      trips = [7 \<mapsto> \<lparr>t_traveler_id = Some 2\<rparr>],
      packages = [5 \<mapsto> \<lparr>p_sender_id = Some 1, p_trip_id = Some 7,
                          p_status = Some ACCEPTED, p_updated_at = 200\<rparr>],
      package_tracking =
        [\<lparr>tr_id = 1, tr_package_id = 5, tr_status = ACCEPTED, tr_user_id = Some 2,
          tr_notes = None, tr_location = None, tr_photo_path = None,
          tr_created_at = 200\<rparr>],
      package_disputes = [],
      package_tracking_id_seq = 1,
      package_disputes_id_seq = 0\<rparr>"

definition example_state :: state where
  "example_state = \<lparr>db = example_db, emitted = []\<rparr>"

definition example_env :: env where
  "example_env =
     \<lparr>fails = (\<lambda>q. False), clock = 300, db_clock = 300, io = True,
      emit_throws = (\<lambda>u. False), package_room_throws = False,
      admin_room_throws = False\<rparr>"

definition no_options :: options where
  "no_options = \<lparr>opt_notes = None, opt_location = None, opt_photoPath = None\<rparr>"

definition example_dispute :: disputeData where
  "example_dispute =
     \<lparr>reason = ''damaged parcel'', description = ''the box arrived crushed'',
      evidencePhotos = None\<rparr>"

text \<open>The row that the first query returns for package 5 of the sample database.\<close>

definition example_row :: packageData where
  "example_row =
     \<lparr>pd_id = 5, pd_sender_id = 1, pd_traveler_id = Some 2, pd_status = Some ACCEPTED\<rparr>"

section \<open>Properties of the status registry\<close>

lemmas status_defs =
  REQUESTED_def ACCEPTED_def PICKED_UP_def IN_TRANSIT_def ARRIVED_def DELIVERED_def
  DISPUTED_def

lemma map_of_ALLOWED_TRANSITIONS:
  "map_of ALLOWED_TRANSITIONS REQUESTED = Some [ACCEPTED, DISPUTED]"
  "map_of ALLOWED_TRANSITIONS ACCEPTED = Some [PICKED_UP, DISPUTED]"
  "map_of ALLOWED_TRANSITIONS PICKED_UP = Some [IN_TRANSIT, DISPUTED]"
  "map_of ALLOWED_TRANSITIONS IN_TRANSIT = Some [ARRIVED, DISPUTED]"
  "map_of ALLOWED_TRANSITIONS ARRIVED = Some [DELIVERED, DISPUTED]"
  "map_of ALLOWED_TRANSITIONS DELIVERED = Some [DISPUTED]"
  "map_of ALLOWED_TRANSITIONS DISPUTED = Some []"
  by (simp_all add: ALLOWED_TRANSITIONS_def status_defs)

lemma status_nonempty:
  "REQUESTED \<noteq> []" "ACCEPTED \<noteq> []" "PICKED_UP \<noteq> []" "IN_TRANSIT \<noteq> []"
  "ARRIVED \<noteq> []" "DELIVERED \<noteq> []" "DISPUTED \<noteq> []"
  by (simp_all add: status_defs)

text \<open>
  C3. The transition graph is exactly the one of the specification: the table maps each
  of the seven statuses to the listed successors, and \<open>isTransitionAllowed\<close> from
  each of the seven statuses accepts a next status exactly when it is one of them.
\<close>

theorem transition_graph_exact:
  "map_of ALLOWED_TRANSITIONS REQUESTED = Some [ACCEPTED, DISPUTED]
   \<and> map_of ALLOWED_TRANSITIONS ACCEPTED = Some [PICKED_UP, DISPUTED]
   \<and> map_of ALLOWED_TRANSITIONS PICKED_UP = Some [IN_TRANSIT, DISPUTED]
   \<and> map_of ALLOWED_TRANSITIONS IN_TRANSIT = Some [ARRIVED, DISPUTED]
   \<and> map_of ALLOWED_TRANSITIONS ARRIVED = Some [DELIVERED, DISPUTED]
   \<and> map_of ALLOWED_TRANSITIONS DELIVERED = Some [DISPUTED]
   \<and> map_of ALLOWED_TRANSITIONS DISPUTED = Some []
   \<and> isTransitionAllowed (Some REQUESTED) n = Inr (n \<in> {ACCEPTED, DISPUTED})
   \<and> isTransitionAllowed (Some ACCEPTED) n = Inr (n \<in> {PICKED_UP, DISPUTED})
   \<and> isTransitionAllowed (Some PICKED_UP) n = Inr (n \<in> {IN_TRANSIT, DISPUTED})
   \<and> isTransitionAllowed (Some IN_TRANSIT) n = Inr (n \<in> {ARRIVED, DISPUTED})
   \<and> isTransitionAllowed (Some ARRIVED) n = Inr (n \<in> {DELIVERED, DISPUTED})
   \<and> isTransitionAllowed (Some DELIVERED) n = Inr (n \<in> {DISPUTED})
   \<and> isTransitionAllowed (Some DISPUTED) n = Inr (n \<in> {})"
  by (simp add: isTransitionAllowed_def map_of_ALLOWED_TRANSITIONS status_nonempty)


text \<open>
  C4. Role gating: \<open>hasPermissionToUpdate\<close> grants \<open>ACCEPTED\<close>, \<open>PICKED_UP\<close>,
  \<open>IN_TRANSIT\<close> and \<open>ARRIVED\<close> exactly to the traveler of the package's trip,
  \<open>DELIVERED\<close> exactly to the sender, \<open>DISPUTED\<close> exactly to the sender or
  the traveler, and nothing for any other target status or to any other user.
\<close>

theorem role_gating:
  "hasPermissionToUpdate p u s =
     (s \<in> {ACCEPTED, PICKED_UP, IN_TRANSIT, ARRIVED} \<and> pd_traveler_id p = Some u
      \<or> s = DELIVERED \<and> pd_sender_id p = u
      \<or> s = DISPUTED \<and> (pd_sender_id p = u \<or> pd_traveler_id p = Some u))"
  by (auto simp: hasPermissionToUpdate_def Let_def status_defs)

section \<open>Properties of the transition engine\<close>

lemmas example_defs =
  example_db_def example_state_def example_env_def no_options_def example_dispute_def
  example_row_def

lemmas engine_defs =
  createDispute_def updatePackageStatus_def updatePackageStatus_load_def selectPackage_def
  updatePackageStatus_apply_def isTransitionAllowed_def hasPermissionToUpdate_def
  sendStatusNotifications_def sendSystemNotification_def notifyDisputeCreated_def
  rollback_then_throw_def ALLOWED_TRANSITIONS_def STATUS_MESSAGES_def or_null_def Let_def


subsection \<open>Notifications\<close>

lemma sendSystemNotification_error:
  "sendSystemNotification e u n st = (Some err, st') \<Longrightarrow> err = NotificationError u"
  by (auto simp: sendSystemNotification_def split: if_splits)


lemma sendStatusNotifications_error:
  "sendStatusNotifications e pd new uid st = (Some err, st')
   \<Longrightarrow> err = TypeError \<or> (\<exists>u. err = NotificationError u)"
  by (auto simp: sendStatusNotifications_def Let_def
           split: if_splits prod.splits option.splits
           dest: sendSystemNotification_error)



subsection \<open>The two checks\<close>



lemma rollback_then_throw_validation:
  "rollback_then_throw e q err = InvalidTransition c n \<Longrightarrow> err = InvalidTransition c n"
  "rollback_then_throw e q err = PermissionDenied \<Longrightarrow> err = PermissionDenied"
  by (simp_all add: rollback_then_throw_def split: if_splits)

lemma apply_validation_failure:
  assumes "fst (updatePackageStatus_apply e pd pid new uid opts st)
             = Inl (InvalidTransition c n)
           \<or> fst (updatePackageStatus_apply e pd pid new uid opts st) = Inl PermissionDenied"
  shows "snd (updatePackageStatus_apply e pd pid new uid opts st) = st"
  using assms
  by (auto simp: updatePackageStatus_apply_def Let_def
           split: sum.splits if_splits prod.splits option.splits
           dest!: rollback_then_throw_validation sendStatusNotifications_error)

text \<open>
  C5. Validation failures have no side effects: whenever \<open>updatePackageStatus\<close>
  fails with \<open>InvalidTransition\<close> or with \<open>PermissionDenied\<close>, the state after
  the call (the committed database with the stored status, the history and the sequences,
  and the emitted messages) is the state before it.
\<close>

theorem validation_failure_no_side_effects:
  assumes "fst (updatePackageStatus e pid new uid opts st) = Inl (InvalidTransition c n)
           \<or> fst (updatePackageStatus e pid new uid opts st) = Inl PermissionDenied"
  shows "snd (updatePackageStatus e pid new uid opts st) = st"
  using assms apply_validation_failure[of e _ pid new uid opts st c n]
  by (auto simp: updatePackageStatus_def split: sum.splits)

theorem validation_failure_no_side_effects_witness:
  "fst (updatePackageStatus example_env 5 ACCEPTED 1 no_options example_state)
     = Inl (InvalidTransition (Some ACCEPTED) ACCEPTED)
   \<and> snd (updatePackageStatus example_env 5 ACCEPTED 1 no_options example_state)
     = example_state
   \<and> fst (updatePackageStatus example_env 5 PICKED_UP 1 no_options example_state)
     = Inl PermissionDenied
   \<and> snd (updatePackageStatus example_env 5 PICKED_UP 1 no_options example_state)
     = example_state"
proof -
  have a: "fst (updatePackageStatus example_env 5 ACCEPTED 1 no_options example_state)
             = Inl (InvalidTransition (Some ACCEPTED) ACCEPTED)"
    by (simp add: engine_defs status_defs example_defs)
  have b: "fst (updatePackageStatus example_env 5 PICKED_UP 1 no_options example_state)
             = Inl PermissionDenied"
    by (simp add: engine_defs status_defs example_defs)
  show ?thesis
    using a b
      validation_failure_no_side_effects
        [of example_env 5 ACCEPTED 1 no_options example_state "Some ACCEPTED" ACCEPTED]
      validation_failure_no_side_effects
        [of example_env 5 PICKED_UP 1 no_options example_state "Some ACCEPTED" ACCEPTED]
    by simp
qed

text \<open>
  C6. Validity is checked before permission: when the loaded status does not allow the
  requested one, \<open>updatePackageStatus\<close> never answers \<open>PermissionDenied\<close>, whoever
  asks; and when the statements up to the check and the rollback go through, the error
  is \<open>InvalidTransition\<close> with the loaded and the requested status.
\<close>

theorem validity_checked_before_permission:
  assumes "selectPackage (db st) pid = Some pd"
      and "isTransitionAllowed (pd_status pd) new = Inr False"
  shows "fst (updatePackageStatus e pid new uid opts st) \<noteq> Inl PermissionDenied
     \<and> (\<not> fails e Connect \<and> \<not> fails e Begin \<and> \<not> fails e SelectPackage
          \<and> \<not> fails e Rollback
          \<longrightarrow> fst (updatePackageStatus e pid new uid opts st)
                = Inl (InvalidTransition (pd_status pd) new))"
  using assms
  by (simp add: updatePackageStatus_def updatePackageStatus_load_def
      updatePackageStatus_apply_def rollback_then_throw_def)

theorem validity_checked_before_permission_witness:
  "selectPackage (db example_state) 5 = Some example_row
   \<and> isTransitionAllowed (pd_status example_row) ACCEPTED = Inr False
   \<and> \<not> hasPermissionToUpdate example_row 1 ACCEPTED
   \<and> fst (updatePackageStatus example_env 5 ACCEPTED 1 no_options example_state)
       = Inl (InvalidTransition (Some ACCEPTED) ACCEPTED)"
proof -
  have a: "selectPackage (db example_state) 5 = Some example_row"
    by (simp add: selectPackage_def example_defs)
  have b: "isTransitionAllowed (pd_status example_row) ACCEPTED = Inr False"
    by (simp add: isTransitionAllowed_def ALLOWED_TRANSITIONS_def status_defs example_defs)
  have c: "\<not> hasPermissionToUpdate example_row 1 ACCEPTED"
    by (simp add: hasPermissionToUpdate_def example_defs)
  have d: "\<not> fails example_env Connect \<and> \<not> fails example_env Begin
           \<and> \<not> fails example_env SelectPackage \<and> \<not> fails example_env Rollback"
    by (simp add: example_defs)
  have e: "pd_status example_row = Some ACCEPTED" by (simp add: example_defs)
  show ?thesis
    using a b c d e
      validity_checked_before_permission [OF a b, of example_env 1 no_options]
    by simp
qed

subsection \<open>What a successful call leaves behind\<close>





subsection \<open>Sorting the history\<close>









section \<open>Properties of the history\<close>



section \<open>Two calls on one package\<close>




section \<open>Failures after the commit\<close>



end
